theory Spec2Isabelle
  imports Main "HOL-Library.Word"
begin

section \<open>widget.c: the Lua class of widgets\<close>

text \<open>
  The file binds a Lua class \<open>widget\<close> to C structs of type \<open>widget_t\<close>. The
  functions of the file are embedded one by one, under their own names. A Lua error
  (\<open>luaL_error\<close>, or an argument check that fails) leaves the C function by a long
  jump: here it is the result \<open>Inl e\<close>, returned with the state reached at that
  point. A function that returns gives \<open>Inr n\<close>, the \<open>gint\<close> it returns.

  Pointers are addresses into a store of structs; \<open>NULL\<close> is \<open>None\<close>. Reading
  through an address that holds no struct is undefined in C; the model stops there
  with \<open>Bad_pointer\<close>.
\<close>

subsection \<open>Data\<close>

type_synonym addr = nat
type_synonym gpointer = nat
type_synonym fnptr = nat
type_synonym lua_Number = "64 word"

text \<open>
  The tokens of \<open>common/tokenize.h\<close> that this file names; \<open>L_TK_OTHER\<close> stands
  for every other enumerator (the token of an unknown word among them).
\<close>

datatype luakit_token_t =
    L_TK_WEBVIEW | L_TK_NOTEBOOK | L_TK_TEXTAREA | L_TK_HBOX | L_TK_VBOX
  | L_TK_PARENT | L_TK_TYPE
  | L_TK_OTHER nat

text \<open>The five functions of type \<open>widget_constructor_t\<close> that the file refers to.\<close>

datatype widget_constructor_t =
  widget_webview | widget_notebook | widget_textarea | widget_hbox | widget_vbox

text \<open>Of \<open>window_t\<close> the file reads the field \<open>ref\<close> only.\<close>

record window_t =
  ref :: gpointer

text \<open>
  The fields of \<open>widget_t\<close> that the file reads or writes. The three function
  pointers are code addresses; what the code behind one does is given by the
  environment below.
\<close>

record widget_t =
  type :: "string option"
  destructor :: "fnptr option"
  index :: "fnptr option"
  newindex :: "fnptr option"
  ref :: gpointer
  window :: "addr option"
  parent :: "addr option"

datatype lua_value =
    LNil
  | LBoolean bool
  | LNumber lua_Number
  | LString string
  | LTable addr
  | LFunction addr
  | LUserdata addr

text \<open>
  The interpreter state: the stack of the running C function, bottom first (Lua index
  1 is the first element, index -1 the last), and the structs that the userdata and
  the C pointers refer to.
\<close>

record lua_State =
  stack :: "lua_value list"
  widgets :: "addr \<rightharpoonup> widget_t"
  windows :: "addr \<rightharpoonup> window_t"

datatype lua_error =
    Error string
  | Type_error int string
  | Bad_pointer

type_synonym 'a lua_result = "(lua_error + 'a) \<times> lua_State"

subsection \<open>Code outside the file\<close>

text \<open>
  The class library (\<open>common/luaclass.c\<close>, \<open>common/luaobject.c\<close>), the tokenizer
  and the widget backends are not part of the file. The file is verified for every
  behaviour they may have: they are the fields of an environment. Those that take the
  interpreter state may change all of it and, where they return a value, may raise.
  A constructor and a destructor take the struct alone. \<open>luaH_object_emit_signal\<close>
  returns \<open>void\<close>.
\<close>

record env =
  l_tokenize :: "string \<Rightarrow> luakit_token_t"
  lua_number2str :: "lua_Number \<Rightarrow> string"
  constructor_fn :: "widget_constructor_t \<Rightarrow> widget_t \<Rightarrow> widget_t"
  destructor_fn :: "fnptr \<Rightarrow> widget_t \<Rightarrow> widget_t"
  index_fn :: "fnptr \<Rightarrow> lua_State \<Rightarrow> luakit_token_t \<Rightarrow> int lua_result"
  newindex_fn :: "fnptr \<Rightarrow> lua_State \<Rightarrow> luakit_token_t \<Rightarrow> int lua_result"
  luaH_checkudata :: "lua_State \<Rightarrow> int \<Rightarrow> lua_error + addr"
  luaH_class_new :: "lua_State \<Rightarrow> int lua_result"
  luaH_class_index :: "lua_State \<Rightarrow> int lua_result"
  luaH_class_newindex :: "lua_State \<Rightarrow> int lua_result"
  luaH_object_gc :: "lua_State \<Rightarrow> int lua_result"
  luaH_object_ref_class :: "lua_State \<Rightarrow> int \<Rightarrow> gpointer lua_result"
  luaH_object_push :: "lua_State \<Rightarrow> gpointer \<Rightarrow> lua_State"
  luaH_object_emit_signal :: "lua_State \<Rightarrow> int \<Rightarrow> string \<Rightarrow> int \<Rightarrow> lua_State"

subsection \<open>The Lua C API used by the file\<close>

text \<open>
  These follow the Lua 5.1 reference manual. A positive index counts from the bottom
  of the stack, a negative one from the top; any other index is not acceptable.
\<close>

definition stack_slot :: "lua_value list \<Rightarrow> int \<Rightarrow> nat option" where
  "stack_slot st idx =
     (let n = int (length st)
      in if 0 < idx \<and> idx \<le> n then Some (nat (idx - 1))
         else if idx < 0 \<and> - idx \<le> n then Some (nat (n + idx))
         else None)"

text \<open>
  A \<open>char *\<close> read as a C string ends before its first zero byte: that is what
  \<open>%s\<close> prints and what \<open>g_strdup\<close> copies.
\<close>

definition c_str :: "string \<Rightarrow> string" where
  "c_str s = takeWhile (\<lambda>c. c \<noteq> CHR 0x00) s"

definition g_strdup :: "string \<Rightarrow> string" where
  "g_strdup s = c_str s"

text \<open>
  \<open>lua_tolstring\<close> gives the string at the index, with all its bytes; a number there
  is first replaced, in the stack, by its string. Any other value gives \<open>NULL\<close>.
\<close>

definition lua_tolstring :: "env \<Rightarrow> lua_State \<Rightarrow> int \<Rightarrow> string option \<times> lua_State" where
  "lua_tolstring E L idx =
     (case stack_slot (stack L) idx of
        None \<Rightarrow> (None, L)
      | Some k \<Rightarrow>
          (case stack L ! k of
             LString s \<Rightarrow> (Some s, L)
           | LNumber n \<Rightarrow>
               (Some (lua_number2str E n),
                L\<lparr>stack := (stack L)[k := LString (lua_number2str E n)]\<rparr>)
           | _ \<Rightarrow> (None, L)))"

definition luaL_checklstring :: "env \<Rightarrow> lua_State \<Rightarrow> int \<Rightarrow> string lua_result" where
  "luaL_checklstring E L narg =
     (case lua_tolstring E L narg of
        (None, L1) \<Rightarrow> (Inl (Type_error narg ''string''), L1)
      | (Some s, L1) \<Rightarrow> (Inr s, L1))"

definition luaL_error :: "lua_State \<Rightarrow> string \<Rightarrow> 'a lua_result" where
  "luaL_error L msg = (Inl (Error msg), L)"

definition lua_pushvalue :: "lua_State \<Rightarrow> int \<Rightarrow> lua_State" where
  "lua_pushvalue L idx =
     (case stack_slot (stack L) idx of
        None \<Rightarrow> L\<lparr>stack := stack L @ [LNil]\<rparr>
      | Some k \<Rightarrow> L\<lparr>stack := stack L @ [stack L ! k]\<rparr>)"

definition lua_pushstring :: "lua_State \<Rightarrow> string \<Rightarrow> lua_State" where
  "lua_pushstring L s = L\<lparr>stack := stack L @ [LString (c_str s)]\<rparr>"

subsection \<open>The functions of widget.c\<close>

text \<open>Writing a struct back through its pointer.\<close>

definition store_widget :: "lua_State \<Rightarrow> addr \<Rightarrow> widget_t \<Rightarrow> lua_State" where
  "store_widget L a w = L\<lparr>widgets := (widgets L)(a \<mapsto> w)\<rparr>"

definition luaH_widget_gc :: "env \<Rightarrow> lua_State \<Rightarrow> int lua_result" where
  "luaH_widget_gc E L =
     (case luaH_checkudata E L 1 of
        Inl e \<Rightarrow> (Inl e, L)
      | Inr a \<Rightarrow>
          (case widgets L a of
             None \<Rightarrow> (Inl Bad_pointer, L)
           | Some widget \<Rightarrow>
               (case destructor widget of
                  Some d \<Rightarrow> luaH_object_gc E (store_widget L a (destructor_fn E d widget))
                | None \<Rightarrow> luaH_object_gc E L)))"

definition luaH_widget_new :: "env \<Rightarrow> lua_State \<Rightarrow> int lua_result" where
  "luaH_widget_new E L =
     (case luaH_class_new E L of
        (Inl e, L1) \<Rightarrow> (Inl e, L1)
      | (Inr _, L1) \<Rightarrow>
          (case luaH_checkudata E L1 (-1) of
             Inl e \<Rightarrow> (Inl e, L1)
           | Inr a \<Rightarrow>
               (case widgets L1 a of
                  None \<Rightarrow> (Inl Bad_pointer, L1)
                | Some w \<Rightarrow>
                    (let L2 = store_widget L1 a (w\<lparr>parent := None, window := None\<rparr>);
                         L3 = lua_pushvalue L2 (-1)
                     in case luaH_object_ref_class E L3 (-1) of
                          (Inl e, L4) \<Rightarrow> (Inl e, L4)
                        | (Inr r, L4) \<Rightarrow>
                            (case widgets L4 a of
                               None \<Rightarrow> (Inl Bad_pointer, L4)
                             | Some w4 \<Rightarrow> (Inr 1, store_widget L4 a (w4\<lparr>ref := r\<rparr>)))))))"

definition luaH_widget_index :: "env \<Rightarrow> lua_State \<Rightarrow> int lua_result" where
  "luaH_widget_index E L =
     (case luaL_checklstring E L 2 of
        (Inl e, L1) \<Rightarrow> (Inl e, L1)
      | (Inr prop, L1) \<Rightarrow>
          (let token = l_tokenize E prop
           in case luaH_class_index E L1 of
                (Inl e, L2) \<Rightarrow> (Inl e, L2)
              | (Inr n, L2) \<Rightarrow>
                  if n \<noteq> 0 then (Inr 1, L2)
                  else (case luaH_checkudata E L2 1 of
                          Inl e \<Rightarrow> (Inl e, L2)
                        | Inr a \<Rightarrow>
                            (case widgets L2 a of
                               None \<Rightarrow> (Inl Bad_pointer, L2)
                             | Some widget \<Rightarrow>
                                 (case index widget of
                                    Some f \<Rightarrow> index_fn E f L2 token
                                  | None \<Rightarrow> (Inr 0, L2))))))"

definition luaH_widget_newindex :: "env \<Rightarrow> lua_State \<Rightarrow> int lua_result" where
  "luaH_widget_newindex E L =
     (case luaL_checklstring E L 2 of
        (Inl e, L1) \<Rightarrow> (Inl e, L1)
      | (Inr prop, L1) \<Rightarrow>
          (let token = l_tokenize E prop
           in case luaH_class_newindex E L1 of
                (Inl e, L2) \<Rightarrow> (Inl e, L2)
              | (Inr _, L2) \<Rightarrow>
                  (case luaH_checkudata E L2 1 of
                     Inl e \<Rightarrow> (Inl e, L2)
                   | Inr a \<Rightarrow>
                       (case widgets L2 a of
                          None \<Rightarrow> (Inl Bad_pointer, L2)
                        | Some widget \<Rightarrow>
                            (case newindex widget of
                               Some f \<Rightarrow> newindex_fn E f L2 token
                             | None \<Rightarrow> (Inr 0, L2))))))"

text \<open>The \<open>switch\<close> of \<open>luaH_widget_set_type\<close>: the value of \<open>wc\<close> after it.\<close>

fun select_constructor :: "luakit_token_t \<Rightarrow> widget_constructor_t option" where
  "select_constructor L_TK_WEBVIEW = Some widget_webview"
| "select_constructor L_TK_NOTEBOOK = Some widget_notebook"
| "select_constructor L_TK_TEXTAREA = Some widget_textarea"
| "select_constructor L_TK_HBOX = Some widget_hbox"
| "select_constructor L_TK_VBOX = Some widget_vbox"
| "select_constructor _ = None"

definition luaH_widget_set_type :: "env \<Rightarrow> lua_State \<Rightarrow> addr \<Rightarrow> int lua_result" where
  "luaH_widget_set_type E L w =
     (case widgets L w of
        None \<Rightarrow> (Inl Bad_pointer, L)
      | Some wd \<Rightarrow>
          (case type wd of
             Some t \<Rightarrow> luaL_error L (''widget is already of type '' @ [CHR 0x22] @ c_str t @ [CHR 0x22])
           | None \<Rightarrow>
               (case luaL_checklstring E L (-1) of
                  (Inl e, L1) \<Rightarrow> (Inl e, L1)
                | (Inr name, L1) \<Rightarrow>
                    (let tok = l_tokenize E name
                     in case select_constructor tok of
                          None \<Rightarrow> luaL_error L1 (''unknown widget type: '' @ c_str name)
                        | Some wc \<Rightarrow>
                            (let w1 = constructor_fn E wc wd;
                                 w2 = w1\<lparr>type := Some (g_strdup name)\<rparr>;
                                 L2 = store_widget L1 w w2
                             in (Inr 0, luaH_object_emit_signal E L2 (-3) ''init'' 0))))))"

definition luaH_widget_get_type :: "env \<Rightarrow> lua_State \<Rightarrow> addr \<Rightarrow> int lua_result" where
  "luaH_widget_get_type E L w =
     (case widgets L w of
        None \<Rightarrow> (Inl Bad_pointer, L)
      | Some wd \<Rightarrow>
          (case type wd of
             None \<Rightarrow> (Inr 0, L)
           | Some t \<Rightarrow> (Inr 1, lua_pushstring L t)))"

definition luaH_widget_get_parent :: "env \<Rightarrow> lua_State \<Rightarrow> addr \<Rightarrow> int lua_result" where
  "luaH_widget_get_parent E L w =
     (case widgets L w of
        None \<Rightarrow> (Inl Bad_pointer, L)
      | Some wd \<Rightarrow>
          (case parent wd of
             Some p \<Rightarrow>
               (case widgets L p of
                  None \<Rightarrow> (Inl Bad_pointer, L)
                | Some pw \<Rightarrow> (Inr 1, luaH_object_push E L (widget_t.ref pw)))
           | None \<Rightarrow>
               (case window wd of
                  Some v \<Rightarrow>
                    (case windows L v of
                       None \<Rightarrow> (Inl Bad_pointer, L)
                     | Some win \<Rightarrow> (Inr 1, luaH_object_push E L (window_t.ref win)))
                | None \<Rightarrow> (Inr 0, L))))"

subsection \<open>Calls from the interpreter\<close>

text \<open>
  Lua calls a C function on a stack that holds the arguments of the call. A sequence
  of calls of the functions of the file: each starts from the state the one before
  left, also when that one raised.
\<close>

datatype widget_fn =
    Widget_gc | Widget_new | Widget_index | Widget_newindex
  | Widget_set_type addr | Widget_get_type addr | Widget_get_parent addr

fun call_widget_fn :: "env \<Rightarrow> lua_State \<Rightarrow> widget_fn \<Rightarrow> int lua_result" where
  "call_widget_fn E L Widget_gc = luaH_widget_gc E L"
| "call_widget_fn E L Widget_new = luaH_widget_new E L"
| "call_widget_fn E L Widget_index = luaH_widget_index E L"
| "call_widget_fn E L Widget_newindex = luaH_widget_newindex E L"
| "call_widget_fn E L (Widget_set_type w) = luaH_widget_set_type E L w"
| "call_widget_fn E L (Widget_get_type w) = luaH_widget_get_type E L w"
| "call_widget_fn E L (Widget_get_parent w) = luaH_widget_get_parent E L w"

fun run_calls :: "env \<Rightarrow> lua_State \<Rightarrow> (widget_fn \<times> lua_value list) list \<Rightarrow> lua_State" where
  "run_calls E L [] = L"
| "run_calls E L ((f, args) # cs) =
     run_calls E (snd (call_widget_fn E (L\<lparr>stack := args\<rparr>) f)) cs"

text \<open>The type string of the widget at an address, if there is a widget and it has one.\<close>

definition widget_type :: "lua_State \<Rightarrow> addr \<Rightarrow> string option" where
  "widget_type L a = (case widgets L a of None \<Rightarrow> None | Some w \<Rightarrow> type w)"

text \<open>
  What the file takes for granted of the code around it: a type string, once there,
  is left alone.
\<close>

definition keeps_type :: "(lua_State \<Rightarrow> lua_State) \<Rightarrow> bool" where
  "keeps_type f \<longleftrightarrow> (\<forall>L a t. widget_type L a = Some t \<longrightarrow> widget_type (f L) a = Some t)"

definition externals_keep_type :: "env \<Rightarrow> bool" where
  "externals_keep_type E \<longleftrightarrow>
     (\<forall>d w. type (destructor_fn E d w) = type w) \<and>
     (\<forall>f tok. keeps_type (\<lambda>L. snd (index_fn E f L tok))) \<and>
     (\<forall>f tok. keeps_type (\<lambda>L. snd (newindex_fn E f L tok))) \<and>
     keeps_type (\<lambda>L. snd (luaH_class_new E L)) \<and>
     keeps_type (\<lambda>L. snd (luaH_class_index E L)) \<and>
     keeps_type (\<lambda>L. snd (luaH_class_newindex E L)) \<and>
     keeps_type (\<lambda>L. snd (luaH_object_gc E L)) \<and>
     (\<forall>i. keeps_type (\<lambda>L. snd (luaH_object_ref_class E L i))) \<and>
     (\<forall>p. keeps_type (\<lambda>L. luaH_object_push E L p)) \<and>
     (\<forall>i s n. keeps_type (\<lambda>L. luaH_object_emit_signal E L i s n))"

subsection \<open>An environment and states to run the file on\<close>

text \<open>
  A tokenizer for the examples. It knows the five names of widget types and the two
  property names that the file registers; every other word gets one and the same
  other token.
\<close>

definition tokenize_words :: "string \<Rightarrow> luakit_token_t" where
  "tokenize_words s =
     (if s = ''webview'' then L_TK_WEBVIEW
      else if s = ''notebook'' then L_TK_NOTEBOOK
      else if s = ''textarea'' then L_TK_TEXTAREA
      else if s = ''hbox'' then L_TK_HBOX
      else if s = ''vbox'' then L_TK_VBOX
      else if s = ''parent'' then L_TK_PARENT
      else if s = ''type'' then L_TK_TYPE
      else L_TK_OTHER 0)"

text \<open>
  A class library that accepts the userdata of a widget and nothing else, finds no
  property on its own, and allocates at address 7 while that is free. Each handler of
  a backend and the signal emission leave a value on the stack, so that a call of
  one shows in the state.
\<close>

definition blank_widget :: widget_t where
  "blank_widget =
     \<lparr>type = None, destructor = None, index = None, newindex = None,
      ref = 0, window = None, parent = None\<rparr>"

definition checkudata0 :: "lua_State \<Rightarrow> int \<Rightarrow> lua_error + addr" where
  "checkudata0 L ud =
     (case stack_slot (stack L) ud of
        None \<Rightarrow> Inl (Type_error ud ''widget'')
      | Some k \<Rightarrow>
          (case stack L ! k of
             LUserdata a \<Rightarrow>
               (case widgets L a of
                  None \<Rightarrow> Inl (Type_error ud ''widget'')
                | Some _ \<Rightarrow> Inr a)
           | _ \<Rightarrow> Inl (Type_error ud ''widget'')))"

definition env0 :: env where
  "env0 =
     \<lparr>l_tokenize = tokenize_words,
      lua_number2str = (\<lambda>n. ''0''),
      constructor_fn = (\<lambda>wc w. w\<lparr>destructor := Some 10, index := Some 11, newindex := Some 12\<rparr>),
      destructor_fn = (\<lambda>d w. w\<lparr>index := None, newindex := None\<rparr>),
      index_fn = (\<lambda>f L tok. (Inr 1, L\<lparr>stack := stack L @ [LBoolean (tok = L_TK_OTHER 0)]\<rparr>)),
      newindex_fn = (\<lambda>f L tok. (Inr 0, L\<lparr>stack := stack L @ [LBoolean (tok = L_TK_OTHER 0)]\<rparr>)),
      luaH_checkudata = checkudata0,
      luaH_class_new =
        (\<lambda>L. case widgets L 7 of
               Some _ \<Rightarrow> (Inl (Error ''not enough memory''), L)
             | None \<Rightarrow>
                 (Inr 1, L\<lparr>stack := stack L @ [LUserdata 7],
                           widgets := (widgets L)(7 \<mapsto> blank_widget\<lparr>parent := Some 3\<rparr>)\<rparr>)),
      luaH_class_index = (\<lambda>L. (Inr 0, L)),
      luaH_class_newindex = (\<lambda>L. (Inr 0, L)),
      luaH_object_gc = (\<lambda>L. (Inr 0, L\<lparr>stack := []\<rparr>)),
      luaH_object_ref_class = (\<lambda>L ud. (Inr 7, L\<lparr>stack := butlast (stack L)\<rparr>)),
      luaH_object_push = (\<lambda>L p. L\<lparr>stack := stack L @ [LUserdata p]\<rparr>),
      luaH_object_emit_signal = (\<lambda>L ud name nargs. L\<lparr>stack := stack L @ [LString name]\<rparr>)\<rparr>"

text \<open>
  One widget without a type at address 3, one of type hbox at address 2 whose parent
  is the first, and a window at address 5.
\<close>

definition typed_widget :: widget_t where
  "typed_widget =
     \<lparr>type = Some ''hbox'', destructor = Some 10, index = Some 11, newindex = Some 12,
      ref = 2, window = Some 5, parent = Some 3\<rparr>"

definition untyped_widget :: widget_t where
  "untyped_widget =
     \<lparr>type = None, destructor = None, index = None, newindex = None,
      ref = 3, window = Some 5, parent = None\<rparr>"

definition state0 :: "lua_value list \<Rightarrow> lua_State" where
  "state0 st =
     \<lparr>stack = st,
      widgets = [3 \<mapsto> untyped_widget, 2 \<mapsto> typed_widget],
      windows = [5 \<mapsto> \<lparr>window_t.ref = 50\<rparr>]\<rparr>"

text \<open>An environment whose class library finds every property by itself.\<close>

definition env1 :: env where
  "env1 =
     env0\<lparr>luaH_class_index := (\<lambda>L. (Inr 1, L\<lparr>stack := stack L @ [LNil]\<rparr>)),
          luaH_class_newindex := (\<lambda>L. (Inr 1, L))\<rparr>"

section \<open>Properties\<close>

subsection \<open>The Lua C API\<close>

lemma c_str_idem: "c_str (c_str s) = c_str s"
  by (simp add: c_str_def)

lemma c_str_no_zero: "CHR 0x00 \<notin> set s \<Longrightarrow> c_str s = s"
  by (auto simp: c_str_def)

lemma tolstring_none: "fst (lua_tolstring E L i) = None \<Longrightarrow> snd (lua_tolstring E L i) = L"
  by (auto simp: lua_tolstring_def split: option.splits lua_value.splits)

lemma tolstring_widgets: "widgets (snd (lua_tolstring E L i)) = widgets L"
  by (auto simp: lua_tolstring_def split: option.splits lua_value.splits)

lemma tolstring_windows: "windows (snd (lua_tolstring E L i)) = windows L"
  by (auto simp: lua_tolstring_def split: option.splits lua_value.splits)

lemma checklstring_tolstring:
  "luaL_checklstring E L i =
     (case fst (lua_tolstring E L i) of
        None \<Rightarrow> (Inl (Type_error i ''string''), snd (lua_tolstring E L i))
      | Some s \<Rightarrow> (Inr s, snd (lua_tolstring E L i)))"
  by (simp add: luaL_checklstring_def split: prod.split option.split)

lemma checklstring_widgets:
  assumes "luaL_checklstring E L i = (r, L1)"
  shows "widgets L1 = widgets L"
proof -
  have "L1 = snd (lua_tolstring E L i)"
    using assms by (simp add: checklstring_tolstring split: option.splits)
  then show ?thesis
    by (simp add: tolstring_widgets)
qed

text \<open>The string functions read the number format of the environment and nothing else.\<close>

lemma tolstring_constructor_fn:
  "lua_tolstring (E\<lparr>constructor_fn := g\<rparr>) L i = lua_tolstring E L i"
  by (simp add: lua_tolstring_def split: option.split lua_value.split)

lemma checklstring_index_fn:
  "luaL_checklstring (E\<lparr>index_fn := g\<rparr>) L i = luaL_checklstring E L i"
  by (simp add: luaL_checklstring_def lua_tolstring_def split: option.split lua_value.split)

lemma checklstring_emit_signal:
  "luaL_checklstring (E\<lparr>luaH_object_emit_signal := g\<rparr>) L i = luaL_checklstring E L i"
  by (simp add: luaL_checklstring_def lua_tolstring_def split: option.split lua_value.split)

subsection \<open>The four ways through \<open>luaH_widget_set_type\<close>\<close>

lemma set_type_typed:
  assumes "widgets L w = Some wd" and "type wd = Some t"
  shows "luaH_widget_set_type E L w =
           (Inl (Error (''widget is already of type '' @ [CHR 0x22] @ c_str t @ [CHR 0x22])), L)"
  using assms by (simp add: luaH_widget_set_type_def luaL_error_def)

lemma set_type_no_string:
  assumes "widgets L w = Some wd" and "type wd = None"
    and "luaL_checklstring E L (-1) = (Inl e, L1)"
  shows "luaH_widget_set_type E L w = (Inl e, L1)"
  using assms by (simp add: luaH_widget_set_type_def)

lemma set_type_unknown:
  assumes "widgets L w = Some wd" and "type wd = None"
    and "luaL_checklstring E L (-1) = (Inr name, L1)"
    and "select_constructor (l_tokenize E name) = None"
  shows "luaH_widget_set_type E L w =
           (Inl (Error (''unknown widget type: '' @ c_str name)), L1)"
  using assms by (simp add: luaH_widget_set_type_def luaL_error_def)

lemma set_type_known:
  assumes "widgets L w = Some wd" and "type wd = None"
    and "luaL_checklstring E L (-1) = (Inr name, L1)"
    and "select_constructor (l_tokenize E name) = Some wc"
  shows "luaH_widget_set_type E L w =
           (Inr 0, luaH_object_emit_signal E
                     (store_widget L1 w ((constructor_fn E wc wd)\<lparr>type := Some (g_strdup name)\<rparr>))
                     (-3) ''init'' 0)"
  using assms by (simp add: luaH_widget_set_type_def)

lemma set_type_returns:
  assumes "widgets L w = Some wd" and "luaH_widget_set_type E L w = (Inr n, L')"
  shows "\<exists>name L1 wc.
           type wd = None \<and> n = 0 \<and>
           luaL_checklstring E L (-1) = (Inr name, L1) \<and>
           select_constructor (l_tokenize E name) = Some wc \<and>
           L' = luaH_object_emit_signal E
                  (store_widget L1 w ((constructor_fn E wc wd)\<lparr>type := Some (g_strdup name)\<rparr>))
                  (-3) ''init'' 0"
proof (cases "type wd")
  case (Some t)
  then show ?thesis
    using assms set_type_typed [OF assms(1) Some, of E] by simp
next
  case None
  obtain r L1 where r: "luaL_checklstring E L (-1) = (r, L1)"
    by (cases "luaL_checklstring E L (-1)")
  show ?thesis
  proof (cases r)
    case (Inl e)
    then show ?thesis
      using assms(2) set_type_no_string [OF assms(1) None, of E e L1] r by simp
  next
    case (Inr name)
    show ?thesis
    proof (cases "select_constructor (l_tokenize E name)")
      case no: None
      then show ?thesis
        using assms(2) set_type_unknown [OF assms(1) None, of E name L1] r Inr by simp
    next
      case (Some wc)
      then show ?thesis
        using assms(2) set_type_known [OF assms(1) None, of E name L1 wc] r Inr None by simp
    qed
  qed
qed

lemma select_constructor_other:
  assumes "tok \<notin> {L_TK_WEBVIEW, L_TK_NOTEBOOK, L_TK_TEXTAREA, L_TK_HBOX, L_TK_VBOX}"
  shows "select_constructor tok = None"
  using assms by (cases tok) simp_all

subsection \<open>Type strings are kept\<close>

lemma widget_type_stack: "widget_type (L\<lparr>stack := st\<rparr>) a = widget_type L a"
  by (simp add: widget_type_def)

lemma widget_type_store:
  "widget_type (store_widget L b w) a = (if a = b then type w else widget_type L a)"
  by (simp add: widget_type_def store_widget_def)

lemma store_same_type:
  "widgets M b = Some w \<Longrightarrow> type w' = type w \<Longrightarrow>
   widget_type (store_widget M b w') a = widget_type M a"
  by (simp add: widget_type_def store_widget_def)

lemma widget_type_pushvalue: "widget_type (lua_pushvalue L i) a = widget_type L a"
  by (simp add: lua_pushvalue_def widget_type_stack split: option.split)

lemma checklstring_keeps:
  "luaL_checklstring E L i = (r, L1) \<Longrightarrow> widget_type L1 a = widget_type L a"
  by (auto simp: widget_type_def dest: checklstring_widgets)

lemma keeps_typeD:
  "keeps_type f \<Longrightarrow> widget_type L a = Some t \<Longrightarrow> widget_type (f L) a = Some t"
  by (simp add: keeps_type_def)

lemma keeps_type_sndD:
  "keeps_type (\<lambda>L. snd (f L)) \<Longrightarrow> widget_type L a = Some t \<Longrightarrow> f L = (r, L') \<Longrightarrow>
   widget_type L' a = Some t"
  by (auto simp: keeps_type_def) (metis snd_conv)

lemma gc_keeps:
  assumes "externals_keep_type E" "widget_type L a = Some t"
  shows "widget_type (snd (luaH_widget_gc E L)) a = Some t"
proof -
  have d: "type (destructor_fn E d w) = type w" for d w
    using assms(1) by (simp add: externals_keep_type_def)
  have g: "keeps_type (\<lambda>L. snd (luaH_object_gc E L))"
    using assms(1) by (simp add: externals_keep_type_def)
  have s: "widget_type (store_widget L b (destructor_fn E d w)) a = Some t"
    if "widgets L b = Some w" for b d w
    using that assms(2) by (simp add: store_same_type d)
  show ?thesis
    using assms(2) keeps_typeD [OF g] s
    by (auto simp: luaH_widget_gc_def split: sum.splits option.splits)
qed

lemma new_keeps:
  assumes "externals_keep_type E" "widget_type L a = Some t"
  shows "widget_type (snd (luaH_widget_new E L)) a = Some t"
proof -
  have n: "keeps_type (\<lambda>L. snd (luaH_class_new E L))"
    and r: "keeps_type (\<lambda>L. snd (luaH_object_ref_class E L i))" for i
    using assms(1) by (simp_all add: externals_keep_type_def)
  obtain x L1 where c: "luaH_class_new E L = (x, L1)"
    by (cases "luaH_class_new E L")
  have t1: "widget_type L1 a = Some t"
    using keeps_type_sndD [OF n assms(2) c] .
  have st: "widget_type (store_widget M b (w\<lparr>parent := None, window := None\<rparr>)) a = Some t"
    if "widget_type M a = Some t" "widgets M b = Some w" for M b w
    using that by (simp add: store_same_type)
  have st2: "widget_type (store_widget M b (w\<lparr>widget_t.ref := q\<rparr>)) a = Some t"
    if "widget_type M a = Some t" "widgets M b = Some w" for M b w q
    using that by (simp add: store_same_type)
  show ?thesis
    using c t1
    by (auto simp: luaH_widget_new_def Let_def widget_type_pushvalue
          split: sum.splits option.splits prod.splits
          intro!: st2 dest!: keeps_type_sndD [OF r, rotated] intro: st)
qed

lemma index_keeps:
  assumes "externals_keep_type E" "widget_type L a = Some t"
  shows "widget_type (snd (luaH_widget_index E L)) a = Some t"
proof -
  have c: "keeps_type (\<lambda>L. snd (luaH_class_index E L))"
    and b: "keeps_type (\<lambda>L. snd (index_fn E f L tok))" for f tok
    using assms(1) by (simp_all add: externals_keep_type_def)
  obtain r L1 where s: "luaL_checklstring E L 2 = (r, L1)"
    by (cases "luaL_checklstring E L 2")
  have t1: "widget_type L1 a = Some t"
    using checklstring_keeps [OF s] assms(2) by simp
  obtain x L2 where ci: "luaH_class_index E L1 = (x, L2)"
    by (cases "luaH_class_index E L1")
  have t2: "widget_type L2 a = Some t"
    using keeps_type_sndD [OF c t1 ci] .
  have t3: "widget_type (snd (index_fn E f L2 tok)) a = Some t" for f tok
    using keeps_typeD [OF b t2] .
  show ?thesis
    using s ci t1 t2 t3
    by (auto simp: luaH_widget_index_def Let_def split: sum.splits option.splits)
qed

lemma newindex_keeps:
  assumes "externals_keep_type E" "widget_type L a = Some t"
  shows "widget_type (snd (luaH_widget_newindex E L)) a = Some t"
proof -
  have c: "keeps_type (\<lambda>L. snd (luaH_class_newindex E L))"
    and b: "keeps_type (\<lambda>L. snd (newindex_fn E f L tok))" for f tok
    using assms(1) by (simp_all add: externals_keep_type_def)
  obtain r L1 where s: "luaL_checklstring E L 2 = (r, L1)"
    by (cases "luaL_checklstring E L 2")
  have t1: "widget_type L1 a = Some t"
    using checklstring_keeps [OF s] assms(2) by simp
  obtain x L2 where ci: "luaH_class_newindex E L1 = (x, L2)"
    by (cases "luaH_class_newindex E L1")
  have t2: "widget_type L2 a = Some t"
    using keeps_type_sndD [OF c t1 ci] .
  have t3: "widget_type (snd (newindex_fn E f L2 tok)) a = Some t" for f tok
    using keeps_typeD [OF b t2] .
  show ?thesis
    using s ci t1 t2 t3
    by (auto simp: luaH_widget_newindex_def Let_def split: sum.splits option.splits)
qed

lemma set_type_keeps:
  assumes "externals_keep_type E" "widget_type L a = Some t"
  shows "widget_type (snd (luaH_widget_set_type E L w)) a = Some t"
proof -
  have e: "keeps_type (\<lambda>L. luaH_object_emit_signal E L i s n)" for i s n
    using assms(1) by (simp add: externals_keep_type_def)
  obtain r L1 where s: "luaL_checklstring E L (-1) = (r, L1)"
    by (cases "luaL_checklstring E L (-1)")
  have t1: "widget_type L1 a = Some t"
    using checklstring_keeps [OF s] assms(2) by simp
  have st: "widget_type (luaH_object_emit_signal E (store_widget L1 w w') i nm n) a = Some t"
    if "a \<noteq> w" for w' i nm n
    using keeps_typeD [OF e, of "store_widget L1 w w'" a t] t1 that
    by (simp add: widget_type_store)
  have neq: "a \<noteq> w" if "widgets L w = Some wd" "type wd = None" for wd
    using that assms(2) by (auto simp: widget_type_def)
  show ?thesis
    using s t1 assms(2) st neq
    by (auto simp: luaH_widget_set_type_def luaL_error_def Let_def
          split: sum.splits option.splits)
qed

lemma get_type_keeps:
  "widget_type (snd (luaH_widget_get_type E L w)) a = widget_type L a"
  by (simp add: luaH_widget_get_type_def lua_pushstring_def widget_type_stack
        split: option.split)

lemma get_parent_keeps:
  assumes "externals_keep_type E" "widget_type L a = Some t"
  shows "widget_type (snd (luaH_widget_get_parent E L w)) a = Some t"
proof -
  have p: "keeps_type (\<lambda>L. luaH_object_push E L q)" for q
    using assms(1) by (simp add: externals_keep_type_def)
  show ?thesis
    using assms(2) keeps_typeD [OF p assms(2)]
    by (simp add: luaH_widget_get_parent_def split: option.split)
qed

lemma call_keeps:
  assumes "externals_keep_type E" "widget_type L a = Some t"
  shows "widget_type (snd (call_widget_fn E L f)) a = Some t"
  using assms
  by (cases f)
     (simp_all add: gc_keeps new_keeps index_keeps newindex_keeps set_type_keeps
        get_type_keeps get_parent_keeps)

lemma run_keeps:
  "externals_keep_type E \<Longrightarrow> widget_type L a = Some t \<Longrightarrow>
   widget_type (run_calls E L cs) a = Some t"
proof (induction cs arbitrary: L)
  case Nil
  then show ?case by simp
next
  case (Cons c cs)
  obtain f args where c: "c = (f, args)"
    by (cases c)
  have "widget_type (L\<lparr>stack := args\<rparr>) a = Some t"
    using Cons.prems(2) by (simp add: widget_type_stack)
  then have "widget_type (snd (call_widget_fn E (L\<lparr>stack := args\<rparr>) f)) a = Some t"
    using Cons.prems(1) by (rule call_keeps [rotated])
  then show ?case
    using Cons.IH [OF Cons.prems(1)] c by simp
qed

lemma env0_keeps_type: "externals_keep_type env0"
  by (simp add: externals_keep_type_def env0_def keeps_type_def widget_type_def blank_widget_def
        split: option.split)

subsection \<open>Facts about the example environment\<close>

lemma state0_widget3: "widgets (state0 st) 3 = Some untyped_widget"
  by (simp add: state0_def)

lemma state0_widget2: "widgets (state0 st) 2 = Some typed_widget"
  by (simp add: state0_def)

lemma state0_window5: "windows (state0 st) 5 = Some \<lparr>window_t.ref = 50\<rparr>"
  by (simp add: state0_def)

lemma state0_stack: "stack (state0 st) = st"
  by (simp add: state0_def)

lemma checkudata0_first:
  "widgets L a = Some w \<Longrightarrow> stack L = LUserdata a # st \<Longrightarrow> luaH_checkudata env0 L 1 = Inr a"
  by (simp add: env0_def checkudata0_def stack_slot_def)

text \<open>States of the example with a property name at index 2.\<close>

lemma checklstring_string_at_2:
  "stack L = v # LString s # st \<Longrightarrow> luaL_checklstring E L 2 = (Inr s, L)"
  by (simp add: luaL_checklstring_def lua_tolstring_def stack_slot_def)

lemma checklstring_string_on_top:
  "stack L = [u, v, LString s] \<Longrightarrow> luaL_checklstring E L (-1) = (Inr s, L)"
  by (simp add: luaL_checklstring_def lua_tolstring_def stack_slot_def)

lemma set_type_hbox_example:
  "fst (luaH_widget_set_type env0 (state0 [LUserdata 3, LString ''type'', LString ''hbox'']) 3) = Inr 0"
  "stack (snd (luaH_widget_set_type env0 (state0 [LUserdata 3, LString ''type'', LString ''hbox'']) 3)) =
     [LUserdata 3, LString ''type'', LString ''hbox'', LString ''init'']"
  "widgets (snd (luaH_widget_set_type env0 (state0 [LUserdata 3, LString ''type'', LString ''hbox'']) 3)) 3 =
     Some (untyped_widget\<lparr>type := Some ''hbox'', destructor := Some 10,
                           index := Some 11, newindex := Some 12\<rparr>)"
proof -
  let ?S = "state0 [LUserdata 3, LString ''type'', LString ''hbox'']"
  have s: "luaL_checklstring env0 ?S (-1) = (Inr ''hbox'', ?S)"
    by (rule checklstring_string_on_top [OF state0_stack])
  have n: "type untyped_widget = None"
    by (simp add: untyped_widget_def)
  have k: "select_constructor (l_tokenize env0 ''hbox'') = Some widget_hbox"
    by (simp add: env0_def tokenize_words_def)
  have e: "luaH_object_emit_signal env0 M ud nm nargs = M\<lparr>stack := stack M @ [LString nm]\<rparr>"
    for M ud nm nargs
    by (simp add: env0_def)
  have c: "constructor_fn env0 wc v = v\<lparr>destructor := Some 10, index := Some 11, newindex := Some 12\<rparr>"
    for wc v
    by (simp add: env0_def)
  note r = set_type_known [OF state0_widget3 n s k]
  show "fst (luaH_widget_set_type env0 ?S 3) = Inr 0"
    by (simp add: r)
  show "stack (snd (luaH_widget_set_type env0 ?S 3)) =
     [LUserdata 3, LString ''type'', LString ''hbox'', LString ''init'']"
    by (simp add: r e store_widget_def state0_stack)
  show "widgets (snd (luaH_widget_set_type env0 ?S 3)) 3 =
     Some (untyped_widget\<lparr>type := Some ''hbox'', destructor := Some 10,
                           index := Some 11, newindex := Some 12\<rparr>)"
    by (simp add: r e c store_widget_def g_strdup_def c_str_def)
qed

section \<open>The claims\<close>

text \<open>
  C1. A widget that has a type keeps it. An attempt to set the type of such a widget
  raises the error of a duplicate assignment as its first step and returns the state
  it was given, unchanged. No sequence of calls of the functions of the file changes
  the type string, as long as the code outside the file (class library, backends,
  signal handlers) leaves type strings alone as well.
\<close>

theorem widget_type_assigned_once:
  assumes "widget_type L a = Some t"
  shows "luaH_widget_set_type E L a =
           (Inl (Error (''widget is already of type '' @ [CHR 0x22] @ c_str t @ [CHR 0x22])), L) \<and>
         (externals_keep_type E \<longrightarrow> (\<forall>cs. widget_type (run_calls E L cs) a = Some t))"
proof
  from assms obtain wd where "widgets L a = Some wd" and "type wd = Some t"
    by (auto simp: widget_type_def split: option.splits)
  then show "luaH_widget_set_type E L a =
           (Inl (Error (''widget is already of type '' @ [CHR 0x22] @ c_str t @ [CHR 0x22])), L)"
    by (rule set_type_typed)
next
  show "externals_keep_type E \<longrightarrow> (\<forall>cs. widget_type (run_calls E L cs) a = Some t)"
    using assms by (simp add: run_keeps)
qed

theorem widget_type_assigned_once_witness:
  "widget_type (state0 [LUserdata 2, LString ''type'', LString ''vbox'']) 2 = Some ''hbox'' \<and>
   luaH_widget_set_type env0 (state0 [LUserdata 2, LString ''type'', LString ''vbox'']) 2 =
     (Inl (Error (''widget is already of type '' @ [CHR 0x22] @ ''hbox'' @ [CHR 0x22])),
      state0 [LUserdata 2, LString ''type'', LString ''vbox'']) \<and>
   externals_keep_type env0 \<and>
   widget_type
     (run_calls env0 (state0 [LUserdata 2, LString ''type'', LString ''vbox''])
        [(Widget_set_type 2, [LUserdata 2, LString ''type'', LString ''vbox'']),
         (Widget_newindex, [LUserdata 2, LString ''type'', LString ''vbox'']),
         (Widget_index, [LUserdata 2, LString ''type'']),
         (Widget_new, [LTable 8, LTable 9]),
         (Widget_gc, [LUserdata 2])]) 2 = Some ''hbox''"
proof -
  let ?S = "state0 [LUserdata 2, LString ''type'', LString ''vbox'']"
  have t: "widget_type ?S 2 = Some ''hbox''"
    by (simp add: widget_type_def state0_widget2 typed_widget_def)
  have c: "c_str ''hbox'' = ''hbox''"
    by (simp add: c_str_def)
  show ?thesis
    using widget_type_assigned_once [OF t, of env0] t env0_keeps_type
    unfolding c by blast
qed

text \<open>
  C2, as stated: setting the type raises if and only if the widget has a type already
  or the name given has the token of none of the five widget types. It fails for a
  value that is no string and no number, such as \<open>true\<close>: the widget has no type, the
  value gives no name at all, and \<open>luaL_checklstring\<close> raises.
\<close>

theorem set_type_raises_on_non_string:
  "fst (luaH_widget_set_type env0 (state0 [LUserdata 3, LString ''type'', LBoolean True]) 3) =
     Inl (Type_error (-1) ''string'') \<and>
   widget_type (state0 [LUserdata 3, LString ''type'', LBoolean True]) 3 = None \<and>
   fst (lua_tolstring env0 (state0 [LUserdata 3, LString ''type'', LBoolean True]) (-1)) = None"
proof -
  let ?S = "state0 [LUserdata 3, LString ''type'', LBoolean True]"
  have n: "type untyped_widget = None"
    by (simp add: untyped_widget_def)
  have v: "lua_tolstring env0 ?S (-1) = (None, ?S)"
    by (simp add: lua_tolstring_def stack_slot_def state0_stack)
  then have "luaL_checklstring env0 ?S (-1) = (Inl (Type_error (-1) ''string''), ?S)"
    by (simp add: luaL_checklstring_def)
  then have "luaH_widget_set_type env0 ?S 3 = (Inl (Type_error (-1) ''string''), ?S)"
    by (rule set_type_no_string [OF state0_widget3 n])
  then show ?thesis
    using v n by (simp add: widget_type_def state0_widget3)
qed

text \<open>
  C2, amended: setting the type raises if and only if the widget has a type already,
  or the value given is neither a string nor a number, or the name given has the token
  of none of the five widget types. The error is the result of the call itself. On
  the error of an unknown type the structs are as before, so the type is still unset,
  and the result is the same whatever the constructors would do: none is called. On
  the error of a value that is no string the state is unchanged.
\<close>

theorem set_type_raises_iff:
  assumes "widgets L w = Some wd"
  shows "(isl (fst (luaH_widget_set_type E L w)) \<longleftrightarrow>
            type wd \<noteq> None \<or>
            fst (lua_tolstring E L (-1)) = None \<or>
            (\<exists>name. fst (lua_tolstring E L (-1)) = Some name \<and>
               select_constructor (l_tokenize E name) = None)) \<and>
         (type wd = None \<and> fst (lua_tolstring E L (-1)) = None \<longrightarrow>
            luaH_widget_set_type E L w = (Inl (Type_error (-1) ''string''), L)) \<and>
         (\<forall>name. type wd = None \<and> fst (lua_tolstring E L (-1)) = Some name \<and>
            select_constructor (l_tokenize E name) = None \<longrightarrow>
            luaH_widget_set_type E L w =
              (Inl (Error (''unknown widget type: '' @ c_str name)), snd (lua_tolstring E L (-1))) \<and>
            widgets (snd (lua_tolstring E L (-1))) = widgets L \<and>
            (\<forall>g. luaH_widget_set_type (E\<lparr>constructor_fn := g\<rparr>) L w = luaH_widget_set_type E L w))"
  using assms
  by (auto simp: luaH_widget_set_type_def luaL_error_def Let_def checklstring_tolstring
        tolstring_constructor_fn tolstring_none tolstring_widgets
        split: option.splits)

theorem set_type_raises_iff_witness:
  "widgets (state0 [LUserdata 3, LString ''type'', LString ''button'']) 3 = Some untyped_widget \<and>
   type untyped_widget = None \<and>
   fst (lua_tolstring env0 (state0 [LUserdata 3, LString ''type'', LString ''button'']) (-1)) =
     Some ''button'' \<and>
   select_constructor (l_tokenize env0 ''button'') = None \<and>
   isl (fst (luaH_widget_set_type env0 (state0 [LUserdata 3, LString ''type'', LString ''button'']) 3)) \<and>
   luaH_widget_set_type env0 (state0 [LUserdata 3, LString ''type'', LString ''button'']) 3 =
     (Inl (Error ''unknown widget type: button''),
      state0 [LUserdata 3, LString ''type'', LString ''button'']) \<and>
   widgets (state0 [LUserdata 3, LString ''type'', LBoolean True]) 3 = Some untyped_widget \<and>
   fst (lua_tolstring env0 (state0 [LUserdata 3, LString ''type'', LBoolean True]) (-1)) = None \<and>
   luaH_widget_set_type env0 (state0 [LUserdata 3, LString ''type'', LBoolean True]) 3 =
     (Inl (Type_error (-1) ''string''), state0 [LUserdata 3, LString ''type'', LBoolean True]) \<and>
   widgets (state0 [LUserdata 3, LString ''type'', LString ''hbox'']) 3 = Some untyped_widget \<and>
   fst (lua_tolstring env0 (state0 [LUserdata 3, LString ''type'', LString ''hbox'']) (-1)) =
     Some ''hbox'' \<and>
   select_constructor (l_tokenize env0 ''hbox'') = Some widget_hbox \<and>
   \<not> isl (fst (luaH_widget_set_type env0 (state0 [LUserdata 3, LString ''type'', LString ''hbox'']) 3))"
proof -
  let ?S = "state0 [LUserdata 3, LString ''type'', LString ''button'']"
  let ?T = "state0 [LUserdata 3, LString ''type'', LBoolean True]"
  let ?U = "state0 [LUserdata 3, LString ''type'', LString ''hbox'']"
  have ws: "widgets ?S 3 = Some untyped_widget" and wt: "widgets ?T 3 = Some untyped_widget"
    and wu: "widgets ?U 3 = Some untyped_widget"
    by (rule state0_widget3)+
  have n: "type untyped_widget = None"
    by (simp add: untyped_widget_def)
  have vs: "lua_tolstring env0 ?S (-1) = (Some ''button'', ?S)"
    and vt: "lua_tolstring env0 ?T (-1) = (None, ?T)"
    and vu: "lua_tolstring env0 ?U (-1) = (Some ''hbox'', ?U)"
    by (simp_all add: lua_tolstring_def stack_slot_def state0_stack)
  have k: "select_constructor (l_tokenize env0 ''button'') = None"
    "select_constructor (l_tokenize env0 ''hbox'') = Some widget_hbox"
    by (simp_all add: env0_def tokenize_words_def)
  have c: "''unknown widget type: '' @ c_str ''button'' = ''unknown widget type: button''"
    by (simp add: c_str_def)
  note s = set_type_raises_iff [OF ws, of env0]
  note t = set_type_raises_iff [OF wt, of env0]
  note u = set_type_raises_iff [OF wu, of env0]
  have s1: "isl (fst (luaH_widget_set_type env0 ?S 3))"
    using s n vs k(1) by simp
  have s2: "luaH_widget_set_type env0 ?S 3 = (Inl (Error ''unknown widget type: button''), ?S)"
    using s n vs k(1) c by simp
  have t1: "luaH_widget_set_type env0 ?T 3 = (Inl (Type_error (-1) ''string''), ?T)"
    using t n vt by simp
  have u1: "\<not> isl (fst (luaH_widget_set_type env0 ?U 3))"
    using u n vu k(2) by simp
  show ?thesis
    using ws wt wu n vs vt vu k s1 s2 t1 u1 by simp
qed

text \<open>
  C3. The switch of \<open>luaH_widget_set_type\<close> gives each of the five tokens webview,
  notebook, textarea, hbox and vbox its own constructor, and no constructor to any
  other token. A name whose token has a constructor has that constructor applied to
  the struct of the widget (which has no type yet); a name whose token has none
  raises the error of an unknown type.
\<close>

theorem set_type_dispatch:
  "select_constructor L_TK_WEBVIEW = Some widget_webview \<and>
   select_constructor L_TK_NOTEBOOK = Some widget_notebook \<and>
   select_constructor L_TK_TEXTAREA = Some widget_textarea \<and>
   select_constructor L_TK_HBOX = Some widget_hbox \<and>
   select_constructor L_TK_VBOX = Some widget_vbox \<and>
   (\<forall>tok. tok \<notin> {L_TK_WEBVIEW, L_TK_NOTEBOOK, L_TK_TEXTAREA, L_TK_HBOX, L_TK_VBOX} \<longrightarrow>
      select_constructor tok = None) \<and>
   (\<forall>wd name L1 wc.
      widgets L w = Some wd \<and> type wd = None \<and>
      luaL_checklstring E L (-1) = (Inr name, L1) \<and>
      select_constructor (l_tokenize E name) = Some wc \<longrightarrow>
      luaH_widget_set_type E L w =
        (Inr 0, luaH_object_emit_signal E
                  (store_widget L1 w ((constructor_fn E wc wd)\<lparr>type := Some (g_strdup name)\<rparr>))
                  (-3) ''init'' 0)) \<and>
   (\<forall>wd name L1.
      widgets L w = Some wd \<and> type wd = None \<and>
      luaL_checklstring E L (-1) = (Inr name, L1) \<and>
      select_constructor (l_tokenize E name) = None \<longrightarrow>
      luaH_widget_set_type E L w = (Inl (Error (''unknown widget type: '' @ c_str name)), L1) \<and>
      widgets L1 = widgets L)"
proof (intro conjI allI impI)
  fix tok
  assume "tok \<notin> {L_TK_WEBVIEW, L_TK_NOTEBOOK, L_TK_TEXTAREA, L_TK_HBOX, L_TK_VBOX}"
  then show "select_constructor tok = None"
    by (rule select_constructor_other)
next
  fix wd name L1 wc
  assume "widgets L w = Some wd \<and> type wd = None \<and>
      luaL_checklstring E L (-1) = (Inr name, L1) \<and>
      select_constructor (l_tokenize E name) = Some wc"
  then show "luaH_widget_set_type E L w =
        (Inr 0, luaH_object_emit_signal E
                  (store_widget L1 w ((constructor_fn E wc wd)\<lparr>type := Some (g_strdup name)\<rparr>))
                  (-3) ''init'' 0)"
    by (simp add: set_type_known)
next
  fix wd name L1
  assume a: "widgets L w = Some wd \<and> type wd = None \<and>
      luaL_checklstring E L (-1) = (Inr name, L1) \<and>
      select_constructor (l_tokenize E name) = None"
  then show "luaH_widget_set_type E L w = (Inl (Error (''unknown widget type: '' @ c_str name)), L1)"
    by (simp add: set_type_unknown)
  from a show "widgets L1 = widgets L"
    by (blast dest: checklstring_widgets)
qed simp_all

theorem set_type_dispatch_witness:
  "L_TK_TYPE \<notin> {L_TK_WEBVIEW, L_TK_NOTEBOOK, L_TK_TEXTAREA, L_TK_HBOX, L_TK_VBOX} \<and>
   select_constructor L_TK_TYPE = None \<and>
   widgets (state0 [LUserdata 3, LString ''type'', LString ''vbox'']) 3 = Some untyped_widget \<and>
   type untyped_widget = None \<and>
   luaL_checklstring env0 (state0 [LUserdata 3, LString ''type'', LString ''vbox'']) (-1) =
     (Inr ''vbox'', state0 [LUserdata 3, LString ''type'', LString ''vbox'']) \<and>
   select_constructor (l_tokenize env0 ''vbox'') = Some widget_vbox \<and>
   luaH_widget_set_type env0 (state0 [LUserdata 3, LString ''type'', LString ''vbox'']) 3 =
     (Inr 0, luaH_object_emit_signal env0
        (store_widget (state0 [LUserdata 3, LString ''type'', LString ''vbox'']) 3
           ((constructor_fn env0 widget_vbox untyped_widget)\<lparr>type := Some (g_strdup ''vbox'')\<rparr>))
        (-3) ''init'' 0) \<and>
   luaL_checklstring env0 (state0 [LUserdata 3, LString ''type'', LString ''type'']) (-1) =
     (Inr ''type'', state0 [LUserdata 3, LString ''type'', LString ''type'']) \<and>
   select_constructor (l_tokenize env0 ''type'') = None \<and>
   luaH_widget_set_type env0 (state0 [LUserdata 3, LString ''type'', LString ''type'']) 3 =
     (Inl (Error ''unknown widget type: type''), state0 [LUserdata 3, LString ''type'', LString ''type''])"
proof -
  let ?S = "state0 [LUserdata 3, LString ''type'', LString ''vbox'']"
  let ?T = "state0 [LUserdata 3, LString ''type'', LString ''type'']"
  have m: "L_TK_TYPE \<notin> {L_TK_WEBVIEW, L_TK_NOTEBOOK, L_TK_TEXTAREA, L_TK_HBOX, L_TK_VBOX}"
    by simp
  have ws: "widgets ?S 3 = Some untyped_widget" and wt: "widgets ?T 3 = Some untyped_widget"
    by (rule state0_widget3)+
  have n: "type untyped_widget = None"
    by (simp add: untyped_widget_def)
  have s: "luaL_checklstring env0 ?S (-1) = (Inr ''vbox'', ?S)"
    by (rule checklstring_string_on_top [OF state0_stack])
  have t: "luaL_checklstring env0 ?T (-1) = (Inr ''type'', ?T)"
    by (rule checklstring_string_on_top [OF state0_stack])
  have k: "select_constructor (l_tokenize env0 ''vbox'') = Some widget_vbox"
    "select_constructor (l_tokenize env0 ''type'') = None"
    by (simp_all add: env0_def tokenize_words_def)
  have c: "c_str ''type'' = ''type''"
    by (simp add: c_str_def)
  have o: "select_constructor L_TK_TYPE = None"
    using set_type_dispatch [of ?S 3 env0] m by blast
  have v: "luaH_widget_set_type env0 ?S 3 =
     (Inr 0, luaH_object_emit_signal env0
        (store_widget ?S 3
           ((constructor_fn env0 widget_vbox untyped_widget)\<lparr>type := Some (g_strdup ''vbox'')\<rparr>))
        (-3) ''init'' 0)"
    using set_type_dispatch [of ?S 3 env0] ws n s k(1) by blast
  have "luaH_widget_set_type env0 ?T 3 =
     (Inl (Error (''unknown widget type: '' @ c_str ''type'')), ?T)"
    using set_type_dispatch [of ?T 3 env0] wt n t k(2) by blast
  then have u: "luaH_widget_set_type env0 ?T 3 = (Inl (Error ''unknown widget type: type''), ?T)"
    by (simp add: c)
  show ?thesis
    using m o ws n s k v t u by blast
qed

text \<open>
  C4. After a type assignment that returns, the type field of the widget holds a copy
  of the C string given (the name itself when it has no zero byte), and the index,
  newindex and destructor pointers are those the chosen constructor has put into the
  struct; reading the type property then pushes that string and returns 1. This
  holds where the handlers of the signal \<open>init\<close>, which run before the assignment
  returns, leave the struct of the widget alone. Reading the type property of a
  widget whose type was never set returns 0 and pushes nothing.
\<close>

theorem set_type_then_get_type:
  assumes "widgets L w = Some wd"
  shows "(type wd = None \<longrightarrow> luaH_widget_get_type E L w = (Inr 0, L)) \<and>
         (\<forall>n L'.
            luaH_widget_set_type E L w = (Inr n, L') \<and>
            (\<forall>M ud nm nargs. widgets (luaH_object_emit_signal E M ud nm nargs) w = widgets M w) \<longrightarrow>
            (\<exists>name L1 wc wd'.
               luaL_checklstring E L (-1) = (Inr name, L1) \<and>
               select_constructor (l_tokenize E name) = Some wc \<and>
               widgets L' w = Some wd' \<and>
               type wd' = Some (g_strdup name) \<and>
               (CHR 0x00 \<notin> set name \<longrightarrow> type wd' = Some name) \<and>
               index wd' = index (constructor_fn E wc wd) \<and>
               newindex wd' = newindex (constructor_fn E wc wd) \<and>
               destructor wd' = destructor (constructor_fn E wc wd) \<and>
               luaH_widget_get_type E L' w =
                 (Inr 1, L'\<lparr>stack := stack L' @ [LString (g_strdup name)]\<rparr>)))"
proof (intro conjI allI impI)
  assume "type wd = None"
  then show "luaH_widget_get_type E L w = (Inr 0, L)"
    using assms by (simp add: luaH_widget_get_type_def)
next
  fix n L'
  assume a: "luaH_widget_set_type E L w = (Inr n, L') \<and>
            (\<forall>M ud nm nargs. widgets (luaH_object_emit_signal E M ud nm nargs) w = widgets M w)"
  then obtain name L1 wc where s: "luaL_checklstring E L (-1) = (Inr name, L1)"
    and k: "select_constructor (l_tokenize E name) = Some wc"
    and L': "L' = luaH_object_emit_signal E
               (store_widget L1 w ((constructor_fn E wc wd)\<lparr>type := Some (g_strdup name)\<rparr>))
               (-3) ''init'' 0"
    using set_type_returns [OF assms] by blast
  let ?wd = "(constructor_fn E wc wd)\<lparr>type := Some (g_strdup name)\<rparr>"
  have w: "widgets L' w = Some ?wd"
    using a L' by (simp add: store_widget_def)
  have g: "luaH_widget_get_type E L' w =
             (Inr 1, L'\<lparr>stack := stack L' @ [LString (g_strdup name)]\<rparr>)"
    using w by (simp add: luaH_widget_get_type_def lua_pushstring_def g_strdup_def c_str_idem)
  have z: "CHR 0x00 \<notin> set name \<longrightarrow> type ?wd = Some name"
    by (simp add: g_strdup_def c_str_no_zero)
  show "\<exists>name L1 wc wd'.
               luaL_checklstring E L (-1) = (Inr name, L1) \<and>
               select_constructor (l_tokenize E name) = Some wc \<and>
               widgets L' w = Some wd' \<and>
               type wd' = Some (g_strdup name) \<and>
               (CHR 0x00 \<notin> set name \<longrightarrow> type wd' = Some name) \<and>
               index wd' = index (constructor_fn E wc wd) \<and>
               newindex wd' = newindex (constructor_fn E wc wd) \<and>
               destructor wd' = destructor (constructor_fn E wc wd) \<and>
               luaH_widget_get_type E L' w =
                 (Inr 1, L'\<lparr>stack := stack L' @ [LString (g_strdup name)]\<rparr>)"
    using s k w g z by (intro exI [of _ name] exI [of _ L1] exI [of _ wc] exI [of _ ?wd]) simp
qed

theorem set_type_then_get_type_witness:
  "widgets (state0 [LUserdata 3, LString ''type'', LString ''hbox'']) 3 = Some untyped_widget \<and>
   type untyped_widget = None \<and>
   luaH_widget_get_type env0 (state0 [LUserdata 3, LString ''type'', LString ''hbox'']) 3 =
     (Inr 0, state0 [LUserdata 3, LString ''type'', LString ''hbox'']) \<and>
   fst (luaH_widget_set_type env0 (state0 [LUserdata 3, LString ''type'', LString ''hbox'']) 3) = Inr 0 \<and>
   (\<forall>M ud nm nargs. widgets (luaH_object_emit_signal env0 M ud nm nargs) 3 = widgets M 3) \<and>
   CHR 0x00 \<notin> set ''hbox'' \<and>
   (\<exists>wd'.
      widgets (snd (luaH_widget_set_type env0 (state0 [LUserdata 3, LString ''type'', LString ''hbox'']) 3)) 3 =
        Some wd' \<and>
      type wd' = Some ''hbox'' \<and>
      index wd' = index (constructor_fn env0 widget_hbox untyped_widget) \<and>
      newindex wd' = newindex (constructor_fn env0 widget_hbox untyped_widget) \<and>
      destructor wd' = destructor (constructor_fn env0 widget_hbox untyped_widget)) \<and>
   fst (luaH_widget_get_type env0
          (snd (luaH_widget_set_type env0 (state0 [LUserdata 3, LString ''type'', LString ''hbox'']) 3)) 3) =
     Inr 1 \<and>
   stack (snd (luaH_widget_get_type env0
          (snd (luaH_widget_set_type env0 (state0 [LUserdata 3, LString ''type'', LString ''hbox'']) 3)) 3)) =
     [LUserdata 3, LString ''type'', LString ''hbox'', LString ''init'', LString ''hbox'']"
proof -
  let ?S = "state0 [LUserdata 3, LString ''type'', LString ''hbox'']"
  let ?L' = "snd (luaH_widget_set_type env0 ?S 3)"
  have ws: "widgets ?S 3 = Some untyped_widget"
    by (rule state0_widget3)
  have n: "type untyped_widget = None"
    by (simp add: untyped_widget_def)
  have ok: "fst (luaH_widget_set_type env0 ?S 3) = Inr 0"
    and st: "stack ?L' = [LUserdata 3, LString ''type'', LString ''hbox'', LString ''init'']"
    by (rule set_type_hbox_example)+
  have pr: "luaH_widget_set_type env0 ?S 3 = (Inr 0, ?L')"
    using ok by (simp add: prod_eq_iff)
  have fr: "\<forall>M ud nm nargs. widgets (luaH_object_emit_signal env0 M ud nm nargs) 3 = widgets M 3"
    by (simp add: env0_def)
  have z: "CHR 0x00 \<notin> set ''hbox''"
    by simp
  have s: "luaL_checklstring env0 ?S (-1) = (Inr ''hbox'', ?S)"
    by (rule checklstring_string_on_top [OF state0_stack])
  have k: "select_constructor (l_tokenize env0 ''hbox'') = Some widget_hbox"
    by (simp add: env0_def tokenize_words_def)
  note t = set_type_then_get_type [OF ws, of env0]
  have g0: "luaH_widget_get_type env0 ?S 3 = (Inr 0, ?S)"
    using t n by blast
  from t pr fr obtain name L1 wc wd' where
    o1: "luaL_checklstring env0 ?S (-1) = (Inr name, L1)" and
    o2: "select_constructor (l_tokenize env0 name) = Some wc" and
    o3: "widgets ?L' 3 = Some wd'" and
    o4: "CHR 0x00 \<notin> set name \<longrightarrow> type wd' = Some name" and
    o5: "index wd' = index (constructor_fn env0 wc untyped_widget)" and
    o6: "newindex wd' = newindex (constructor_fn env0 wc untyped_widget)" and
    o7: "destructor wd' = destructor (constructor_fn env0 wc untyped_widget)" and
    o8: "luaH_widget_get_type env0 ?L' 3 =
           (Inr 1, ?L'\<lparr>stack := stack ?L' @ [LString (g_strdup name)]\<rparr>)"
    by blast
  have nm: "name = ''hbox''"
    using o1 s by simp
  have wc: "wc = widget_hbox"
    using o2 k nm by simp
  have ty: "type wd' = Some ''hbox''"
    using o4 z unfolding nm by blast
  have x: "\<exists>wd'. widgets ?L' 3 = Some wd' \<and> type wd' = Some ''hbox'' \<and>
      index wd' = index (constructor_fn env0 widget_hbox untyped_widget) \<and>
      newindex wd' = newindex (constructor_fn env0 widget_hbox untyped_widget) \<and>
      destructor wd' = destructor (constructor_fn env0 widget_hbox untyped_widget)"
    using o3 ty o5 o6 o7 unfolding wc by blast
  have cs: "g_strdup ''hbox'' = ''hbox''"
    by (simp add: g_strdup_def c_str_def)
  have g1: "fst (luaH_widget_get_type env0 ?L' 3) = Inr 1"
    and g2: "stack (snd (luaH_widget_get_type env0 ?L' 3)) =
       [LUserdata 3, LString ''type'', LString ''hbox'', LString ''init'', LString ''hbox'']"
    using o8 st unfolding nm cs by simp_all
  show ?thesis
    using ws n g0 ok fr z x g1 g2 by blast
qed

text \<open>
  C5. On a read and on a write the property name (the string at index 2) is turned
  into a token by \<open>l_tokenize\<close>. Where the call reaches the backend step (the class
  library has returned; on a read, without a result), the backend handler of the
  widget is called with that token; where the handler pointer is null, the backend
  step returns no result and leaves the state as it was.
\<close>

theorem property_token_dispatch:
  assumes "luaL_checklstring E L 2 = (Inr prop, L1)"
  shows "(\<forall>L2 a widget. luaH_class_index E L1 = (Inr 0, L2) \<and> luaH_checkudata E L2 1 = Inr a \<and>
            widgets L2 a = Some widget \<longrightarrow>
            luaH_widget_index E L =
              (case index widget of
                 Some f \<Rightarrow> index_fn E f L2 (l_tokenize E prop)
               | None \<Rightarrow> (Inr 0, L2))) \<and>
         (\<forall>n L2 a widget. luaH_class_newindex E L1 = (Inr n, L2) \<and> luaH_checkudata E L2 1 = Inr a \<and>
            widgets L2 a = Some widget \<longrightarrow>
            luaH_widget_newindex E L =
              (case newindex widget of
                 Some f \<Rightarrow> newindex_fn E f L2 (l_tokenize E prop)
               | None \<Rightarrow> (Inr 0, L2)))"
  using assms by (simp add: luaH_widget_index_def luaH_widget_newindex_def)

theorem property_token_dispatch_witness:
  "luaL_checklstring env0 (state0 [LUserdata 2, LString ''parent'']) 2 =
     (Inr ''parent'', state0 [LUserdata 2, LString ''parent'']) \<and>
   luaH_class_index env0 (state0 [LUserdata 2, LString ''parent'']) =
     (Inr 0, state0 [LUserdata 2, LString ''parent'']) \<and>
   luaH_class_newindex env0 (state0 [LUserdata 2, LString ''parent'']) =
     (Inr 0, state0 [LUserdata 2, LString ''parent'']) \<and>
   luaH_checkudata env0 (state0 [LUserdata 2, LString ''parent'']) 1 = Inr 2 \<and>
   widgets (state0 [LUserdata 2, LString ''parent'']) 2 = Some typed_widget \<and>
   luaH_widget_index env0 (state0 [LUserdata 2, LString ''parent'']) =
     index_fn env0 11 (state0 [LUserdata 2, LString ''parent'']) L_TK_PARENT \<and>
   luaH_widget_newindex env0 (state0 [LUserdata 2, LString ''parent'']) =
     newindex_fn env0 12 (state0 [LUserdata 2, LString ''parent'']) L_TK_PARENT \<and>
   luaL_checklstring env0 (state0 [LUserdata 3, LString ''parent'']) 2 =
     (Inr ''parent'', state0 [LUserdata 3, LString ''parent'']) \<and>
   luaH_checkudata env0 (state0 [LUserdata 3, LString ''parent'']) 1 = Inr 3 \<and>
   widgets (state0 [LUserdata 3, LString ''parent'']) 3 = Some untyped_widget \<and>
   luaH_widget_index env0 (state0 [LUserdata 3, LString ''parent'']) =
     (Inr 0, state0 [LUserdata 3, LString ''parent'']) \<and>
   luaH_widget_newindex env0 (state0 [LUserdata 3, LString ''parent'']) =
     (Inr 0, state0 [LUserdata 3, LString ''parent''])"
proof -
  let ?S = "state0 [LUserdata 2, LString ''parent'']"
  let ?T = "state0 [LUserdata 3, LString ''parent'']"
  have s: "luaL_checklstring env0 ?S 2 = (Inr ''parent'', ?S)"
    by (rule checklstring_string_at_2 [OF state0_stack])
  have t: "luaL_checklstring env0 ?T 2 = (Inr ''parent'', ?T)"
    by (rule checklstring_string_at_2 [OF state0_stack])
  have ci: "luaH_class_index env0 M = (Inr 0, M)"
    and cn: "luaH_class_newindex env0 M = (Inr 0, M)" for M
    by (simp_all add: env0_def)
  have us: "luaH_checkudata env0 ?S 1 = Inr 2"
    by (rule checkudata0_first [OF state0_widget2 state0_stack])
  have ut: "luaH_checkudata env0 ?T 1 = Inr 3"
    by (rule checkudata0_first [OF state0_widget3 state0_stack])
  have ws: "widgets ?S 2 = Some typed_widget"
    by (rule state0_widget2)
  have wt: "widgets ?T 3 = Some untyped_widget"
    by (rule state0_widget3)
  have f: "index typed_widget = Some 11" "newindex typed_widget = Some 12"
    "index untyped_widget = None" "newindex untyped_widget = None"
    by (simp_all add: typed_widget_def untyped_widget_def)
  have k: "l_tokenize env0 ''parent'' = L_TK_PARENT"
    by (simp add: env0_def tokenize_words_def)
  show ?thesis
    using property_token_dispatch [OF s] property_token_dispatch [OF t] s t ci cn us ut ws wt f k
    by simp
qed

text \<open>
  C6. When a widget is collected, its destructor is called exactly when the destructor
  pointer is not null, and before \<open>luaH_object_gc\<close>: the generic collection runs on the
  state in which the destructor has been applied to the struct. With a null pointer
  the collection is the generic one alone.
\<close>

theorem widget_gc_destructor_first:
  assumes "luaH_checkudata E L 1 = Inr a" and "widgets L a = Some widget"
  shows "(\<forall>d. destructor widget = Some d \<longrightarrow>
            luaH_widget_gc E L = luaH_object_gc E (store_widget L a (destructor_fn E d widget))) \<and>
         (destructor widget = None \<longrightarrow> luaH_widget_gc E L = luaH_object_gc E L)"
  using assms by (simp add: luaH_widget_gc_def)

theorem widget_gc_destructor_first_witness:
  "luaH_checkudata env0 (state0 [LUserdata 2]) 1 = Inr 2 \<and>
   widgets (state0 [LUserdata 2]) 2 = Some typed_widget \<and>
   destructor typed_widget = Some 10 \<and>
   luaH_widget_gc env0 (state0 [LUserdata 2]) =
     luaH_object_gc env0 (store_widget (state0 [LUserdata 2]) 2 (destructor_fn env0 10 typed_widget)) \<and>
   widgets (snd (luaH_widget_gc env0 (state0 [LUserdata 2]))) 2 =
     Some (typed_widget\<lparr>index := None, newindex := None\<rparr>) \<and>
   luaH_checkudata env0 (state0 [LUserdata 3]) 1 = Inr 3 \<and>
   widgets (state0 [LUserdata 3]) 3 = Some untyped_widget \<and>
   destructor untyped_widget = None \<and>
   luaH_widget_gc env0 (state0 [LUserdata 3]) = luaH_object_gc env0 (state0 [LUserdata 3])"
proof -
  have a1: "luaH_checkudata env0 (state0 [LUserdata 2]) 1 = Inr 2"
    by (rule checkudata0_first [OF state0_widget2 state0_stack])
  have a2: "widgets (state0 [LUserdata 2]) 2 = Some typed_widget"
    by (rule state0_widget2)
  have a3: "destructor typed_widget = Some 10"
    by (simp add: typed_widget_def)
  have b1: "luaH_checkudata env0 (state0 [LUserdata 3]) 1 = Inr 3"
    by (rule checkudata0_first [OF state0_widget3 state0_stack])
  have b2: "widgets (state0 [LUserdata 3]) 3 = Some untyped_widget"
    by (rule state0_widget3)
  have b3: "destructor untyped_widget = None"
    by (simp add: untyped_widget_def)
  have c: "widgets (snd (luaH_object_gc env0
             (store_widget (state0 [LUserdata 2]) 2 (destructor_fn env0 10 typed_widget)))) 2 =
           Some (typed_widget\<lparr>index := None, newindex := None\<rparr>)"
    by (simp add: env0_def store_widget_def)
  show ?thesis
    using widget_gc_destructor_first [OF a1 a2] widget_gc_destructor_first [OF b1 b2]
      a1 a2 a3 b1 b2 b3 c
    by simp
qed

text \<open>
  C7. A call of \<open>luaH_widget_new\<close> that returns, returns 1; the widget it has made has
  a null parent and a null window, and its field \<open>ref\<close> holds what
  \<open>luaH_object_ref_class\<close> has returned for the copy of the instance pushed just
  before. The fields are written before the reference is taken, so the statement
  asks that taking the reference leaves the structs alone.
\<close>

theorem widget_new_fields:
  assumes "luaH_widget_new E L = (Inr n, L')"
    and "\<forall>M ud. widgets (snd (luaH_object_ref_class E M ud)) = widgets M"
  shows "n = 1 \<and>
         (\<exists>m L1 a w r L4 w'.
            luaH_class_new E L = (Inr m, L1) \<and>
            luaH_checkudata E L1 (-1) = Inr a \<and>
            widgets L1 a = Some w \<and>
            luaH_object_ref_class E
              (lua_pushvalue (store_widget L1 a (w\<lparr>parent := None, window := None\<rparr>)) (-1)) (-1) =
              (Inr r, L4) \<and>
            widgets L' a = Some w' \<and>
            parent w' = None \<and> window w' = None \<and> widget_t.ref w' = r)"
proof -
  have pv: "widgets (lua_pushvalue M i) = widgets M" for M i
    by (simp add: lua_pushvalue_def split: option.split)
  have rc: "luaH_object_ref_class E M ud = (x, M') \<Longrightarrow> widgets M' = widgets M" for M ud x M'
    using assms(2) by (metis snd_conv)
  show ?thesis
    using assms(1)
    by (auto simp: luaH_widget_new_def Let_def store_widget_def pv
          split: option.splits sum.splits prod.splits dest!: rc)
qed

theorem widget_new_fields_witness:
  "fst (luaH_widget_new env0 (state0 [LTable 8, LTable 9])) = Inr 1 \<and>
   (\<forall>M ud. widgets (snd (luaH_object_ref_class env0 M ud)) = widgets M) \<and>
   luaH_class_new env0 (state0 [LTable 8, LTable 9]) =
     (Inr 1, (state0 [LTable 8, LTable 9, LUserdata 7])
               \<lparr>widgets := (widgets (state0 [])) (7 \<mapsto> blank_widget\<lparr>parent := Some 3\<rparr>)\<rparr>) \<and>
   (\<exists>w'. widgets (snd (luaH_widget_new env0 (state0 [LTable 8, LTable 9]))) 7 = Some w' \<and>
      parent w' = None \<and> window w' = None \<and> widget_t.ref w' = 7)"
proof -
  let ?S = "state0 [LTable 8, LTable 9]"
  let ?L1 = "(state0 [LTable 8, LTable 9, LUserdata 7])
               \<lparr>widgets := (widgets (state0 [])) (7 \<mapsto> blank_widget\<lparr>parent := Some 3\<rparr>)\<rparr>"
  have cn: "luaH_class_new env0 ?S = (Inr 1, ?L1)"
    by (simp add: env0_def state0_def)
  have cu: "luaH_checkudata env0 ?L1 (-1) = Inr 7"
    by (simp add: env0_def checkudata0_def stack_slot_def state0_def)
  have w1: "widgets ?L1 7 = Some (blank_widget\<lparr>parent := Some 3\<rparr>)"
    by simp
  have rc: "luaH_object_ref_class env0 M ud = (Inr 7, M\<lparr>stack := butlast (stack M)\<rparr>)" for M ud
    by (simp add: env0_def)
  have ok: "fst (luaH_widget_new env0 ?S) = Inr 1"
    by (simp add: luaH_widget_new_def cn cu w1 rc Let_def store_widget_def lua_pushvalue_def
          split: option.split)
  then have pr: "luaH_widget_new env0 ?S = (Inr 1, snd (luaH_widget_new env0 ?S))"
    by (simp add: prod_eq_iff)
  have fr: "\<forall>M ud. widgets (snd (luaH_object_ref_class env0 M ud)) = widgets M"
    by (simp add: rc)
  from widget_new_fields [OF pr fr] cn cu
  have "\<exists>w'. widgets (snd (luaH_widget_new env0 ?S)) 7 = Some w' \<and>
      parent w' = None \<and> window w' = None \<and> widget_t.ref w' = 7"
    by (auto simp: rc)
  then show ?thesis
    using ok fr cn by blast
qed

text \<open>
  C8. A read and a write dispatch differently. On a read the backend index handler
  is consulted only when the class index has returned no result: when it has returned
  one, the read returns 1 on the state the class index left, whatever the backend
  handler is. On a write the class newindex is called first and the backend newindex
  handler, when not null, is then called on the state the class newindex left,
  whatever value the class newindex has returned.
\<close>

theorem index_newindex_asymmetry:
  assumes "luaL_checklstring E L 2 = (Inr prop, L1)"
  shows "(\<forall>n L2. luaH_class_index E L1 = (Inr n, L2) \<and> n \<noteq> 0 \<longrightarrow>
            luaH_widget_index E L = (Inr 1, L2) \<and>
            (\<forall>g. luaH_widget_index (E\<lparr>index_fn := g\<rparr>) L = luaH_widget_index E L)) \<and>
         (\<forall>L2 a widget f. luaH_class_index E L1 = (Inr 0, L2) \<and> luaH_checkudata E L2 1 = Inr a \<and>
            widgets L2 a = Some widget \<and> index widget = Some f \<longrightarrow>
            luaH_widget_index E L = index_fn E f L2 (l_tokenize E prop)) \<and>
         (\<forall>n L2 a widget f. luaH_class_newindex E L1 = (Inr n, L2) \<and> luaH_checkudata E L2 1 = Inr a \<and>
            widgets L2 a = Some widget \<and> newindex widget = Some f \<longrightarrow>
            luaH_widget_newindex E L = newindex_fn E f L2 (l_tokenize E prop))"
  using assms
  by (simp add: luaH_widget_index_def luaH_widget_newindex_def checklstring_index_fn)

theorem index_newindex_asymmetry_witness:
  "luaL_checklstring env1 (state0 [LUserdata 2, LString ''type'']) 2 =
     (Inr ''type'', state0 [LUserdata 2, LString ''type'']) \<and>
   luaH_class_index env1 (state0 [LUserdata 2, LString ''type'']) =
     (Inr 1, state0 [LUserdata 2, LString ''type'', LNil]) \<and>
   luaH_widget_index env1 (state0 [LUserdata 2, LString ''type'']) =
     (Inr 1, state0 [LUserdata 2, LString ''type'', LNil]) \<and>
   luaH_class_newindex env1 (state0 [LUserdata 2, LString ''type'']) =
     (Inr 1, state0 [LUserdata 2, LString ''type'']) \<and>
   luaH_checkudata env1 (state0 [LUserdata 2, LString ''type'']) 1 = Inr 2 \<and>
   widgets (state0 [LUserdata 2, LString ''type'']) 2 = Some typed_widget \<and>
   newindex typed_widget = Some 12 \<and>
   luaH_widget_newindex env1 (state0 [LUserdata 2, LString ''type'']) =
     (Inr 0, state0 [LUserdata 2, LString ''type'', LBoolean False])"
proof -
  let ?S = "state0 [LUserdata 2, LString ''type'']"
  have s: "luaL_checklstring env1 ?S 2 = (Inr ''type'', ?S)"
    by (rule checklstring_string_at_2 [OF state0_stack])
  have ci: "luaH_class_index env1 ?S = (Inr 1, state0 [LUserdata 2, LString ''type'', LNil])"
    by (simp add: env1_def state0_def)
  have cn: "luaH_class_newindex env1 ?S = (Inr 1, ?S)"
    by (simp add: env1_def)
  have "luaH_checkudata env1 ?S 1 = luaH_checkudata env0 ?S 1"
    by (simp add: env1_def)
  then have u: "luaH_checkudata env1 ?S 1 = Inr 2"
    by (simp add: checkudata0_first [OF state0_widget2 state0_stack])
  have w: "widgets ?S 2 = Some typed_widget"
    by (rule state0_widget2)
  have f: "newindex typed_widget = Some 12"
    by (simp add: typed_widget_def)
  have b: "newindex_fn env1 12 ?S (l_tokenize env1 ''type'') =
             (Inr 0, state0 [LUserdata 2, LString ''type'', LBoolean False])"
    by (simp add: env1_def env0_def tokenize_words_def state0_def)
  show ?thesis
    using index_newindex_asymmetry [OF s] s ci cn u w f b
    by simp
qed

text \<open>
  C9. Reading the parent property pushes the handle of the parent widget whenever the
  parent pointer is not null, whatever the window pointer is; the handle of the window
  when the parent pointer is null and the window pointer is not; and nothing, with
  the state as it was, when both are null.
\<close>

theorem get_parent_precedence:
  assumes "widgets L w = Some wd"
  shows "(\<forall>p pw. parent wd = Some p \<and> widgets L p = Some pw \<longrightarrow>
            luaH_widget_get_parent E L w = (Inr 1, luaH_object_push E L (widget_t.ref pw))) \<and>
         (\<forall>v win. parent wd = None \<and> window wd = Some v \<and> windows L v = Some win \<longrightarrow>
            luaH_widget_get_parent E L w = (Inr 1, luaH_object_push E L (window_t.ref win))) \<and>
         (parent wd = None \<and> window wd = None \<longrightarrow> luaH_widget_get_parent E L w = (Inr 0, L))"
  using assms by (simp add: luaH_widget_get_parent_def)

theorem get_parent_precedence_witness:
  "widgets (state0 []) 2 = Some typed_widget \<and>
   parent typed_widget = Some 3 \<and>
   window typed_widget = Some 5 \<and>
   widgets (state0 []) 3 = Some untyped_widget \<and>
   luaH_widget_get_parent env0 (state0 []) 2 = (Inr 1, state0 [LUserdata 3]) \<and>
   parent untyped_widget = None \<and>
   window untyped_widget = Some 5 \<and>
   windows (state0 []) 5 = Some \<lparr>window_t.ref = 50\<rparr> \<and>
   luaH_widget_get_parent env0 (state0 []) 3 = (Inr 1, state0 [LUserdata 50]) \<and>
   widgets (store_widget (state0 []) 3 blank_widget) 3 = Some blank_widget \<and>
   parent blank_widget = None \<and>
   window blank_widget = None \<and>
   luaH_widget_get_parent env0 (store_widget (state0 []) 3 blank_widget) 3 =
     (Inr 0, store_widget (state0 []) 3 blank_widget)"
proof -
  have a1: "widgets (state0 []) 2 = Some typed_widget"
    by (rule state0_widget2)
  have a2: "parent typed_widget = Some 3" and a3: "window typed_widget = Some 5"
    by (simp_all add: typed_widget_def)
  have b1: "widgets (state0 []) 3 = Some untyped_widget"
    by (rule state0_widget3)
  have b2: "parent untyped_widget = None" and b3: "window untyped_widget = Some 5"
    by (simp_all add: untyped_widget_def)
  have b4: "windows (state0 []) 5 = Some \<lparr>window_t.ref = 50\<rparr>"
    by (rule state0_window5)
  have c1: "widgets (store_widget (state0 []) 3 blank_widget) 3 = Some blank_widget"
    by (simp add: store_widget_def)
  have c2: "parent blank_widget = None" and c3: "window blank_widget = None"
    by (simp_all add: blank_widget_def)
  have p: "luaH_object_push env0 (state0 []) q = state0 [LUserdata q]" for q
    by (simp add: env0_def state0_def)
  have r: "widget_t.ref untyped_widget = 3"
    by (simp add: untyped_widget_def)
  show ?thesis
    using get_parent_precedence [OF a1, of env0] get_parent_precedence [OF b1, of env0]
      get_parent_precedence [OF c1, of env0] a1 a2 a3 b1 b2 b3 b4 c1 c2 c3 p r
    by simp
qed

text \<open>
  C10. A type assignment that succeeds emits the signal \<open>init\<close> once, as its last
  step: the state it returns is the one \<open>luaH_object_emit_signal\<close> gives for the state
  in which the constructor has run and the type string is stored. An assignment that
  fails emits nothing: its result is the same whatever the emission would do.
\<close>

theorem init_signal_emitted_once:
  assumes "widgets L w = Some wd"
  shows "(\<forall>n L'. luaH_widget_set_type E L w = (Inr n, L') \<longrightarrow>
            (\<exists>name L1 wc.
               luaL_checklstring E L (-1) = (Inr name, L1) \<and>
               select_constructor (l_tokenize E name) = Some wc \<and>
               L' = luaH_object_emit_signal E
                      (store_widget L1 w ((constructor_fn E wc wd)\<lparr>type := Some (g_strdup name)\<rparr>))
                      (-3) ''init'' 0)) \<and>
         (\<forall>e L' g. luaH_widget_set_type E L w = (Inl e, L') \<longrightarrow>
            luaH_widget_set_type (E\<lparr>luaH_object_emit_signal := g\<rparr>) L w = (Inl e, L'))"
proof (intro conjI allI impI)
  fix n L'
  assume "luaH_widget_set_type E L w = (Inr n, L')"
  from set_type_returns [OF assms this]
  show "\<exists>name L1 wc.
               luaL_checklstring E L (-1) = (Inr name, L1) \<and>
               select_constructor (l_tokenize E name) = Some wc \<and>
               L' = luaH_object_emit_signal E
                      (store_widget L1 w ((constructor_fn E wc wd)\<lparr>type := Some (g_strdup name)\<rparr>))
                      (-3) ''init'' 0"
    by blast
next
  fix e L' g
  assume "luaH_widget_set_type E L w = (Inl e, L')"
  then show "luaH_widget_set_type (E\<lparr>luaH_object_emit_signal := g\<rparr>) L w = (Inl e, L')"
    using assms
    by (auto simp: luaH_widget_set_type_def luaL_error_def Let_def checklstring_emit_signal
          split: option.splits sum.splits prod.splits)
qed

theorem init_signal_emitted_once_witness:
  "widgets (state0 [LUserdata 3, LString ''type'', LString ''hbox'']) 3 = Some untyped_widget \<and>
   fst (luaH_widget_set_type env0 (state0 [LUserdata 3, LString ''type'', LString ''hbox'']) 3) = Inr 0 \<and>
   stack (snd (luaH_widget_set_type env0 (state0 [LUserdata 3, LString ''type'', LString ''hbox'']) 3)) =
     [LUserdata 3, LString ''type'', LString ''hbox'', LString ''init''] \<and>
   (\<exists>name L1 wc.
      luaL_checklstring env0 (state0 [LUserdata 3, LString ''type'', LString ''hbox'']) (-1) =
        (Inr name, L1) \<and>
      select_constructor (l_tokenize env0 name) = Some wc \<and>
      snd (luaH_widget_set_type env0 (state0 [LUserdata 3, LString ''type'', LString ''hbox'']) 3) =
        luaH_object_emit_signal env0
          (store_widget L1 3 ((constructor_fn env0 wc untyped_widget)\<lparr>type := Some (g_strdup name)\<rparr>))
          (-3) ''init'' 0) \<and>
   widgets (state0 [LUserdata 2, LString ''type'', LString ''hbox'']) 2 = Some typed_widget \<and>
   luaH_widget_set_type env0 (state0 [LUserdata 2, LString ''type'', LString ''hbox'']) 2 =
     (Inl (Error (''widget is already of type '' @ [CHR 0x22] @ ''hbox'' @ [CHR 0x22])),
      state0 [LUserdata 2, LString ''type'', LString ''hbox'']) \<and>
   luaH_widget_set_type (env0\<lparr>luaH_object_emit_signal := (\<lambda>L ud name nargs. L\<lparr>stack := []\<rparr>)\<rparr>)
       (state0 [LUserdata 2, LString ''type'', LString ''hbox'']) 2 =
     (Inl (Error (''widget is already of type '' @ [CHR 0x22] @ ''hbox'' @ [CHR 0x22])),
      state0 [LUserdata 2, LString ''type'', LString ''hbox''])"
proof -
  let ?S = "state0 [LUserdata 3, LString ''type'', LString ''hbox'']"
  let ?T = "state0 [LUserdata 2, LString ''type'', LString ''hbox'']"
  have ws: "widgets ?S 3 = Some untyped_widget"
    by (rule state0_widget3)
  have wt: "widgets ?T 2 = Some typed_widget"
    by (rule state0_widget2)
  have ok: "fst (luaH_widget_set_type env0 ?S 3) = Inr 0"
    and st: "stack (snd (luaH_widget_set_type env0 ?S 3)) =
               [LUserdata 3, LString ''type'', LString ''hbox'', LString ''init'']"
    by (rule set_type_hbox_example)+
  have pr: "luaH_widget_set_type env0 ?S 3 = (Inr 0, snd (luaH_widget_set_type env0 ?S 3))"
    using ok by (simp add: prod_eq_iff)
  have ty: "type typed_widget = Some ''hbox''"
    by (simp add: typed_widget_def)
  have c: "c_str ''hbox'' = ''hbox''"
    by (simp add: c_str_def)
  have dup: "luaH_widget_set_type env0 ?T 2 =
     (Inl (Error (''widget is already of type '' @ [CHR 0x22] @ ''hbox'' @ [CHR 0x22])), ?T)"
    using set_type_typed [OF wt ty, of env0] unfolding c .
  show ?thesis
    using init_signal_emitted_once [OF ws, of env0] init_signal_emitted_once [OF wt, of env0]
      ws wt ok st pr dup
    by blast
qed

end
